theory Spec2Isabelle
  imports Complex_Main "HOL-Library.Word"
begin

section \<open>Inundation differences: the two comparators\<close>

text \<open>
  The repository holds two scripts. \<^verbatim>\<open>Inundation_detector.py\<close> labels every pixel of
  a reference raster against a nearest-neighbour resampled prediction and derives
  confusion counts, areas and percentages. \<^verbatim>\<open>NRMSE.py\<close> computes a normalised
  root-mean-square error between two masked rasters.

  Conventions of the embedding.
  \<^item> A raster band is the row-major sequence of its pixels. Every numpy operation the
    scripts apply is element-wise or a reduction over all elements, so the row
    structure plays no role; two arrays have the same shape when their pixel
    sequences have the same length.
  \<^item> A finite float sample is idealised as a \<open>real\<close>. Rounding is not modelled.
  \<^item> File reading, \<^verbatim>\<open>reproject\<close> and CSV writing belong to rasterio and the standard
    library; what they deliver is a parameter of the model.
\<close>

subsection \<open>numpy on plain arrays\<close>

text \<open>\<^verbatim>\<open>arr == v\<close> and \<^verbatim>\<open>arr != v\<close>: element-wise comparison with a scalar.\<close>

definition np_eq :: "real list \<Rightarrow> real \<Rightarrow> bool list" where
  "np_eq arr v = map (\<lambda>x. x = v) arr"

definition np_ne :: "real list \<Rightarrow> real \<Rightarrow> bool list" where
  "np_ne arr v = map (\<lambda>x. x \<noteq> v) arr"

text \<open>\<^verbatim>\<open>m1 & m2\<close> on boolean arrays of one shape.\<close>

definition np_and :: "bool list \<Rightarrow> bool list \<Rightarrow> bool list" where
  "np_and m1 m2 = map2 (\<lambda>p q. p \<and> q) m1 m2"

text \<open>\<^verbatim>\<open>np.sum(mask)\<close> on a boolean array: the number of \<^verbatim>\<open>True\<close> entries.\<close>

definition np_sum :: "bool list \<Rightarrow> int" where
  "np_sum m = int (length (filter (\<lambda>b. b) m))"

text \<open>\<^verbatim>\<open>np.full_like(arr, v, dtype=...)\<close>: the shape of \<open>arr\<close>, every entry \<open>v\<close>.\<close>

definition full_like :: "'b list \<Rightarrow> 'a \<Rightarrow> 'a list" where
  "full_like arr v = replicate (length arr) v"

text \<open>\<^verbatim>\<open>arr[mask] = v\<close>: the entries selected by the mask are overwritten.\<close>

definition mask_assign :: "'a list \<Rightarrow> bool list \<Rightarrow> 'a \<Rightarrow> 'a list" where
  "mask_assign arr msk v = map2 (\<lambda>c m. if m then v else c) arr msk"

subsection \<open>\<^verbatim>\<open>Inundation_detector.py\<close>\<close>

definition INUNDATED_VALUE :: real where
  "INUNDATED_VALUE = 1"

definition NODATA_CLASS :: "8 word" where
  "NODATA_CLASS = 255"

definition COARSE_PATHS :: "string list" where
  "COARSE_PATHS = [''prediction_15m.tif'', ''prediction_20m.tif'', ''prediction_30m.tif'']"

definition OUTPUT_DIR :: string where
  "OUTPUT_DIR = ''output''"

text \<open>
  The affine transform of the reference profile. \<^verbatim>\<open>transform[0]\<close> is the coefficient
  \<open>a\<close> (pixel width) and \<^verbatim>\<open>transform[4]\<close> is \<open>e\<close> (pixel height, usually negative).
\<close>

record affine =
  aff_a :: real
  aff_b :: real
  aff_c :: real
  aff_d :: real
  aff_e :: real
  aff_f :: real

text \<open>One row of \<^verbatim>\<open>inundation_stats.csv\<close>; the fields follow the dictionary keys.\<close>

record stats_row =
  Resolution :: string
  True_Positives :: int
  False_Negatives :: int
  False_Positives :: int
  TP_Area :: real
  FN_Area :: real
  FP_Area :: real
  TP_pct :: real
  FN_pct :: real
  FP_pct :: real

text \<open>
  The value that marks inundation is the module constant \<open>INUNDATED_VALUE\<close>; the
  definitions take it as the argument \<open>iv\<close> and \<open>main\<close> passes the constant.
\<close>

definition ref_mask :: "real \<Rightarrow> real list \<Rightarrow> bool list" where
  "ref_mask iv ref_array = np_eq ref_array iv"

definition total_inundated_pixels :: "real \<Rightarrow> real list \<Rightarrow> int" where
  "total_inundated_pixels iv ref_array = np_sum (ref_mask iv ref_array)"

definition pixel_area :: "affine \<Rightarrow> real" where
  "pixel_area transform = \<bar>aff_a transform * aff_e transform\<bar>"

definition valid_mask :: "real \<Rightarrow> real list \<Rightarrow> real list \<Rightarrow> bool list" where
  "valid_mask iv ref_array resampled_coarse =
     np_and (np_eq ref_array iv) (np_eq resampled_coarse iv)"

definition false_negatives :: "real \<Rightarrow> real list \<Rightarrow> real list \<Rightarrow> bool list" where
  "false_negatives iv ref_array resampled_coarse =
     np_and (np_eq ref_array iv) (np_ne resampled_coarse iv)"

definition false_positives :: "real \<Rightarrow> real list \<Rightarrow> real list \<Rightarrow> bool list" where
  "false_positives iv ref_array resampled_coarse =
     np_and (np_ne ref_array iv) (np_eq resampled_coarse iv)"

text \<open>The classification raster: a fill with the no-data class, then three masked writes.\<close>

definition classification :: "real \<Rightarrow> 8 word \<Rightarrow> real list \<Rightarrow> real list \<Rightarrow> 8 word list" where
  "classification iv nodata_class ref_array resampled_coarse =
     (let c0 = full_like ref_array nodata_class;
          c1 = mask_assign c0 (valid_mask iv ref_array resampled_coarse) 1;
          c2 = mask_assign c1 (false_negatives iv ref_array resampled_coarse) 2;
          c3 = mask_assign c2 (false_positives iv ref_array resampled_coarse) 3
      in c3)"

definition percentage :: "int \<Rightarrow> int \<Rightarrow> real" where
  "percentage cnt tot = (if tot > 0 then (real_of_int cnt / real_of_int tot) * 100 else 0)"

definition stats_entry :: "real \<Rightarrow> affine \<Rightarrow> string \<Rightarrow> real list \<Rightarrow> real list \<Rightarrow> stats_row" where
  "stats_entry iv transform res ref_array resampled_coarse =
     (let tp_count = np_sum (valid_mask iv ref_array resampled_coarse);
          fn_count = np_sum (false_negatives iv ref_array resampled_coarse);
          fp_count = np_sum (false_positives iv ref_array resampled_coarse)
      in \<lparr> Resolution = res,
           True_Positives = tp_count,
           False_Negatives = fn_count,
           False_Positives = fp_count,
           TP_Area = real_of_int tp_count * pixel_area transform,
           FN_Area = real_of_int fn_count * pixel_area transform,
           FP_Area = real_of_int fp_count * pixel_area transform,
           TP_pct = percentage tp_count (total_inundated_pixels iv ref_array),
           FN_pct = percentage fn_count (total_inundated_pixels iv ref_array),
           FP_pct = percentage fp_count (total_inundated_pixels iv ref_array) \<rparr>)"

text \<open>\<^verbatim>\<open>os.path.basename(p).split('.')[0]\<close> on a POSIX path.\<close>

definition basename :: "string \<Rightarrow> string" where
  "basename p = rev (takeWhile (\<lambda>c. c \<noteq> CHR ''/'') (rev p))"

definition resolution_of :: "string \<Rightarrow> string" where
  "resolution_of coarse_path = takeWhile (\<lambda>c. c \<noteq> CHR ''.'') (basename coarse_path)"

text \<open>
  \<open>main\<close>: the reference band and its transform are what \<^verbatim>\<open>rasterio.open\<close> delivered;
  \<open>reproject\<close> gives, for each coarse path, the destination array that the
  nearest-neighbour resampling filled. The result lists, in the order of
  \<open>COARSE_PATHS\<close>, the classification rasters written (with their paths) and the
  rows of the statistics table.
\<close>

definition main :: "affine \<Rightarrow> real list \<Rightarrow> (string \<Rightarrow> real list)
    \<Rightarrow> (string \<times> 8 word list) list \<times> stats_row list" where
  "main transform ref_array reproject =
     (map (\<lambda>coarse_path.
             (OUTPUT_DIR @ ''/classification_'' @ resolution_of coarse_path @ ''.tif'',
              classification INUNDATED_VALUE NODATA_CLASS ref_array (reproject coarse_path)))
          COARSE_PATHS,
      map (\<lambda>coarse_path.
             stats_entry INUNDATED_VALUE transform (resolution_of coarse_path)
               ref_array (reproject coarse_path))
          COARSE_PATHS)"

subsection \<open>The labelling rule as the specification words it\<close>

datatype label = True_Positive | False_Negative | False_Positive | No_Data

definition spec_label :: "real \<Rightarrow> real \<Rightarrow> real \<Rightarrow> label" where
  "spec_label positive_value r p =
     (if r = positive_value \<and> p = positive_value then True_Positive
      else if r = positive_value \<and> p \<noteq> positive_value then False_Negative
      else if r \<noteq> positive_value \<and> p = positive_value then False_Positive
      else No_Data)"

text \<open>The byte written for each label (the comments beside the three masked writes).\<close>

fun label_code :: "label \<Rightarrow> 8 word" where
  "label_code True_Positive = 1"
| "label_code False_Negative = 2"
| "label_code False_Positive = 3"
| "label_code No_Data = NODATA_CLASS"

subsection \<open>numpy scalars and masked arrays\<close>

text \<open>
  Python exceptions. Both the error that \<^verbatim>\<open>compute_nrmse\<close> raises itself and the one
  numpy raises for a reduction over no elements are \<^verbatim>\<open>ValueError\<close>s; they differ in
  the message.
\<close>

datatype error = ValueError string

text \<open>
  What a numpy computation on scalars can deliver: a finite float, an infinity, NaN
  (numpy does not raise on a float division by zero, it warns and returns
  \<^verbatim>\<open>inf\<close> or \<^verbatim>\<open>nan\<close>), or the constant \<^verbatim>\<open>numpy.ma.masked\<close>, which a reduction of a
  masked array over no valid element returns and which absorbs every operation.
  The rows for infinite operands follow IEEE 754 with the sign of zero left out.
\<close>

datatype npscalar = Finite real | PosInf | NegInf | NaN | Masked

fun np_sqrt :: "npscalar \<Rightarrow> npscalar" where
  "np_sqrt Masked = Masked"
| "np_sqrt NaN = NaN"
| "np_sqrt PosInf = PosInf"
| "np_sqrt NegInf = NaN"
| "np_sqrt (Finite x) = (if x < 0 then NaN else Finite (sqrt x))"

fun np_sub :: "npscalar \<Rightarrow> npscalar \<Rightarrow> npscalar" where
  "np_sub Masked y = Masked"
| "np_sub x Masked = Masked"
| "np_sub NaN y = NaN"
| "np_sub x NaN = NaN"
| "np_sub (Finite a) (Finite b) = Finite (a - b)"
| "np_sub (Finite a) PosInf = NegInf"
| "np_sub (Finite a) NegInf = PosInf"
| "np_sub PosInf PosInf = NaN"
| "np_sub PosInf y = PosInf"
| "np_sub NegInf NegInf = NaN"
| "np_sub NegInf y = NegInf"

fun np_div :: "npscalar \<Rightarrow> npscalar \<Rightarrow> npscalar" where
  "np_div Masked y = Masked"
| "np_div x Masked = Masked"
| "np_div NaN y = NaN"
| "np_div x NaN = NaN"
| "np_div (Finite a) (Finite b) =
     (if b \<noteq> 0 then Finite (a / b)
      else if a = 0 then NaN else if a > 0 then PosInf else NegInf)"
| "np_div (Finite a) y = Finite 0"
| "np_div PosInf (Finite b) = (if b < 0 then NegInf else PosInf)"
| "np_div NegInf (Finite b) = (if b < 0 then PosInf else NegInf)"
| "np_div x y = NaN"

text \<open>Multiplication of a numpy scalar by a Python number.\<close>

fun np_mul :: "npscalar \<Rightarrow> real \<Rightarrow> npscalar" where
  "np_mul Masked c = Masked"
| "np_mul NaN c = NaN"
| "np_mul (Finite a) c = Finite (a * c)"
| "np_mul PosInf c = (if c > 0 then PosInf else if c < 0 then NegInf else NaN)"
| "np_mul NegInf c = (if c > 0 then NegInf else if c < 0 then PosInf else NaN)"

text \<open>
  A masked array: the samples and the mask. The mask is either \<^verbatim>\<open>numpy.ma.nomask\<close>
  (\<open>None\<close>: no mask array is stored and every sample is valid; this is what
  \<^verbatim>\<open>read(1, masked=True)\<close> delivers for a raster without a nodata value) or a
  boolean array of the shape of the samples, \<^verbatim>\<open>True\<close> where the sample is invalid.
  What lies under a masked sample is never read by a reduction.
\<close>

record marray =
  mdata :: "real list"
  mmask :: "bool list option"

text \<open>\<^verbatim>\<open>numpy.ma.getmaskarray\<close>: the mask as an array, all \<^verbatim>\<open>False\<close> for \<^verbatim>\<open>nomask\<close>.\<close>

definition mask_array :: "marray \<Rightarrow> bool list" where
  "mask_array a =
     (case mmask a of None \<Rightarrow> replicate (length (mdata a)) False | Some m \<Rightarrow> m)"

definition wf_marray :: "marray \<Rightarrow> bool" where
  "wf_marray a \<longleftrightarrow> length (mask_array a) = length (mdata a)"

definition same_shape :: "marray \<Rightarrow> marray \<Rightarrow> bool" where
  "same_shape a b \<longleftrightarrow> wf_marray a \<and> wf_marray b \<and> length (mdata b) = length (mdata a)"

text \<open>\<^verbatim>\<open>arr[msk]\<close> with a boolean array: the entries where the index is \<^verbatim>\<open>True\<close>.\<close>

definition getitem :: "'a list \<Rightarrow> bool list \<Rightarrow> 'a list" where
  "getitem arr msk = map fst (filter snd (zip arr msk))"

text \<open>
  On a masked array the samples are indexed, and the mask array alike when
  there is one; \<^verbatim>\<open>nomask\<close> stays \<^verbatim>\<open>nomask\<close>.
\<close>

definition ma_getitem :: "marray \<Rightarrow> bool list \<Rightarrow> marray" where
  "ma_getitem a msk =
     \<lparr> mdata = getitem (mdata a) msk,
       mmask = (case mmask a of None \<Rightarrow> None | Some m \<Rightarrow> Some (getitem m msk)) \<rparr>"

text \<open>
  \<^verbatim>\<open>a - b\<close>: the difference of the samples. The result has \<^verbatim>\<open>nomask\<close> when both
  operands have, and otherwise the element-wise disjunction of the two mask
  arrays. (Under a masked position numpy puts the left operand back; the model
  leaves the difference there, since that sample is never read.)
\<close>

definition ma_sub :: "marray \<Rightarrow> marray \<Rightarrow> marray" where
  "ma_sub a b =
     \<lparr> mdata = map2 (\<lambda>x y. x - y) (mdata a) (mdata b),
       mmask = (if mmask a = None \<and> mmask b = None then None
                else Some (map2 (\<lambda>p q. p \<or> q) (mask_array a) (mask_array b))) \<rparr>"

text \<open>
  \<^verbatim>\<open>numpy.ma.mask_or\<close> with its default \<^verbatim>\<open>shrink=True\<close>: a mask array without a
  \<^verbatim>\<open>True\<close> entry, the empty one included, collapses to \<^verbatim>\<open>nomask\<close>.
\<close>

definition shrink_mask :: "bool list option \<Rightarrow> bool list option" where
  "shrink_mask m =
     (case m of None \<Rightarrow> None | Some bs \<Rightarrow> if True \<in> set bs then Some bs else None)"

text \<open>
  \<^verbatim>\<open>a ** 2\<close>: \<^verbatim>\<open>numpy.ma.power\<close> combines the masks of the two operands with
  \<^verbatim>\<open>mask_or\<close>, so the mask of the result is the shrunk mask of \<open>a\<close>.
\<close>

definition ma_square :: "marray \<Rightarrow> marray" where
  "ma_square a = \<lparr> mdata = map (\<lambda>x. x ^ 2) (mdata a), mmask = shrink_mask (mmask a) \<rparr>"

text \<open>The valid samples of a masked array.\<close>

definition compressed :: "marray \<Rightarrow> real list" where
  "compressed a = getitem (mdata a) (map Not (mask_array a))"

text \<open>
  \<^verbatim>\<open>np.mean\<close> of a masked array. With \<^verbatim>\<open>nomask\<close> it is the mean of the plain array,
  which on an empty array is \<^verbatim>\<open>nan\<close> (with a warning, no exception). With a mask
  array it is the mean of the valid samples, and the constant \<^verbatim>\<open>masked\<close> when
  their count is 0.
\<close>

definition ma_mean :: "marray \<Rightarrow> npscalar" where
  "ma_mean a =
     (case mmask a of
        None \<Rightarrow>
          (if mdata a = [] then NaN
           else Finite (sum_list (mdata a) / real (length (mdata a))))
      | Some m \<Rightarrow>
          (let vs = compressed a
           in if vs = [] then Masked else Finite (sum_list vs / real (length vs))))"

text \<open>
  The methods \<^verbatim>\<open>max\<close> and \<^verbatim>\<open>min\<close> of a masked array: numpy raises
  \<^verbatim>\<open>ValueError\<close> on an array of size 0, returns \<^verbatim>\<open>masked\<close> when every sample is
  masked, and the extremum of the valid samples otherwise.
\<close>

definition ma_max :: "marray \<Rightarrow> error + npscalar" where
  "ma_max a =
     (if mdata a = []
      then Inl (ValueError ''zero-size array to reduction operation maximum which has no identity'')
      else (let vs = compressed a
            in if vs = [] then Inr Masked else Inr (Finite (Max (set vs)))))"

definition ma_min :: "marray \<Rightarrow> error + npscalar" where
  "ma_min a =
     (if mdata a = []
      then Inl (ValueError ''zero-size array to reduction operation minimum which has no identity'')
      else (let vs = compressed a
            in if vs = [] then Inr Masked else Inr (Finite (Min (set vs)))))"

text \<open>
  The variance of a masked array (\<^verbatim>\<open>ddof=0\<close>), the first step of \<^verbatim>\<open>np.std\<close>: the
  mean squared deviation from the mean. With \<^verbatim>\<open>nomask\<close> it is the variance of the
  plain array, \<^verbatim>\<open>nan\<close> on an empty one; with a mask array it is taken over the
  valid samples and is \<^verbatim>\<open>masked\<close> when their count is 0.
\<close>

definition variance :: "real list \<Rightarrow> real" where
  "variance vs =
     (let m = sum_list vs / real (length vs)
      in sum_list (map (\<lambda>x. (x - m) ^ 2) vs) / real (length vs))"

definition ma_var :: "marray \<Rightarrow> npscalar" where
  "ma_var a =
     (case mmask a of
        None \<Rightarrow> (if mdata a = [] then NaN else Finite (variance (mdata a)))
      | Some m \<Rightarrow>
          (let vs = compressed a in if vs = [] then Masked else Finite (variance vs)))"

text \<open>
  \<^verbatim>\<open>numpy.ma.sqrt\<close>, the square root that \<^verbatim>\<open>MaskedArray.std\<close> applies to the
  variance. Unlike \<^verbatim>\<open>np.sqrt\<close> it is a domained operation of \<^verbatim>\<open>numpy.ma\<close>: it
  returns \<^verbatim>\<open>masked\<close> where the argument is negative or the result is not finite.
\<close>

fun ma_sqrt :: "npscalar \<Rightarrow> npscalar" where
  "ma_sqrt (Finite x) = (if x < 0 then Masked else Finite (sqrt x))"
| "ma_sqrt y = Masked"

text \<open>
  \<^verbatim>\<open>np.std\<close> of a masked array: \<^verbatim>\<open>masked\<close> when the variance is, and otherwise
  \<^verbatim>\<open>numpy.ma.sqrt\<close> of the variance.
\<close>

definition ma_std :: "marray \<Rightarrow> npscalar" where
  "ma_std a = (let dvar = ma_var a in if dvar = Masked then Masked else ma_sqrt dvar)"

subsection \<open>\<^verbatim>\<open>NRMSE.py\<close>\<close>

text \<open>
  \<^verbatim>\<open>~reference.mask & ~prediction.mask\<close>. The complement of \<^verbatim>\<open>nomask\<close> is the scalar
  \<^verbatim>\<open>True\<close>, which \<^verbatim>\<open>&\<close> broadcasts over the other operand; indexing with the
  scalar \<^verbatim>\<open>True\<close> (both masks \<^verbatim>\<open>nomask\<close>) selects every sample.
\<close>

definition joint_mask :: "marray \<Rightarrow> marray \<Rightarrow> bool list" where
  "joint_mask reference prediction =
     map2 (\<lambda>p q. p \<and> q) (map Not (mask_array reference)) (map Not (mask_array prediction))"

definition ref_values :: "marray \<Rightarrow> marray \<Rightarrow> marray" where
  "ref_values reference prediction = ma_getitem reference (joint_mask reference prediction)"

definition pred_values :: "marray \<Rightarrow> marray \<Rightarrow> marray" where
  "pred_values reference prediction = ma_getitem prediction (joint_mask reference prediction)"

definition rmse :: "marray \<Rightarrow> marray \<Rightarrow> npscalar" where
  "rmse reference prediction =
     np_sqrt (ma_mean (ma_square
       (ma_sub (ref_values reference prediction) (pred_values reference prediction))))"

definition invalid_normalization :: string where
  "invalid_normalization = ''Invalid normalization method. Choose 'range', 'mean', or 'std'.''"

text \<open>The chain of lines 42 to 49 that chooses the normalization factor.\<close>

definition norm_factor :: "marray \<Rightarrow> string \<Rightarrow> error + npscalar" where
  "norm_factor rv normalization =
     (if normalization = ''range'' then
        (case ma_max rv of
           Inl e \<Rightarrow> Inl e
         | Inr mx \<Rightarrow> (case ma_min rv of Inl e \<Rightarrow> Inl e | Inr mn \<Rightarrow> Inr (np_sub mx mn)))
      else if normalization = ''mean'' then Inr (ma_mean rv)
      else if normalization = ''std'' then Inr (ma_std rv)
      else Inl (ValueError invalid_normalization))"

text \<open>
  \<open>compute_nrmse\<close>. The RMSE is computed first and cannot raise (on an empty
  selection it is \<^verbatim>\<open>nan\<close>); an exception can only come from the choice of the
  normalization factor.
\<close>

definition compute_nrmse :: "marray \<Rightarrow> marray \<Rightarrow> string \<Rightarrow> error + npscalar" where
  "compute_nrmse reference prediction normalization =
     (case norm_factor (ref_values reference prediction) normalization of
        Inl e \<Rightarrow> Inl e
      | Inr nf \<Rightarrow> Inr (np_mul (np_div (rmse reference prediction) nf) 100))"

text \<open>One entry of the result list of \<open>process_nrmse\<close>; the fields follow the dictionary keys.\<close>

record nrmse_record =
  r_variable :: string
  r_prediction_file :: string
  r_nrmse :: npscalar
  r_normalization_method :: string

text \<open>\<^verbatim>\<open>os.path.join\<close> of a folder and a relative file name, on POSIX.\<close>

definition os_path_join :: "string \<Rightarrow> string \<Rightarrow> string" where
  "os_path_join folder name =
     (if folder = [] then name
      else if last folder = CHR ''/'' then folder @ name
      else folder @ ''/'' @ name)"

definition reference_filename :: "string \<Rightarrow> string" where
  "reference_filename variable_name = ''Max_'' @ variable_name @ ''_N10m.tif''"

definition prediction_filenames :: "string \<Rightarrow> string list" where
  "prediction_filenames variable_name =
     [''Max_'' @ variable_name @ ''_N15m.tif'',
      ''Max_'' @ variable_name @ ''_N20m.tif'',
      ''Max_'' @ variable_name @ ''_N30m.tif'']"

text \<open>
  The loop of \<open>process_nrmse\<close> over the prediction files. The file system and
  rasterio are parameters: \<open>exists\<close> is \<^verbatim>\<open>os.path.exists\<close>, and \<open>resample_raster\<close>
  gives the masked array that the function of that name returns for a path and
  the reference raster. A missing file is skipped; an exception of
  \<open>compute_nrmse\<close> leaves the loop and the function, and the results gathered so
  far are lost with it.
\<close>

fun process_predictions ::
  "(string \<Rightarrow> bool) \<Rightarrow> (string \<Rightarrow> marray \<Rightarrow> marray) \<Rightarrow> string \<Rightarrow> string \<Rightarrow> string
     \<Rightarrow> marray \<Rightarrow> string list \<Rightarrow> nrmse_record list \<Rightarrow> error + nrmse_record list" where
  "process_predictions exists resample_raster data_folder variable_name normalization_method
     ref_data [] results = Inr results"
| "process_predictions exists resample_raster data_folder variable_name normalization_method
     ref_data (pred_filename # rest) results =
     (let pred_path = os_path_join data_folder pred_filename
      in if \<not> exists pred_path
         then process_predictions exists resample_raster data_folder variable_name
                normalization_method ref_data rest results
         else (case compute_nrmse ref_data (resample_raster pred_path ref_data)
                      normalization_method of
                 Inl e \<Rightarrow> Inl e
               | Inr v \<Rightarrow>
                   process_predictions exists resample_raster data_folder variable_name
                     normalization_method ref_data rest
                     (results @ [\<lparr> r_variable = variable_name,
                                    r_prediction_file = pred_filename,
                                    r_nrmse = v,
                                    r_normalization_method = normalization_method \<rparr>])))"

text \<open>\<open>read_masked\<close> is \<^verbatim>\<open>read(1, masked=True)\<close> on the opened reference file.\<close>

definition process_nrmse ::
  "(string \<Rightarrow> bool) \<Rightarrow> (string \<Rightarrow> marray) \<Rightarrow> (string \<Rightarrow> marray \<Rightarrow> marray)
     \<Rightarrow> string \<Rightarrow> string \<Rightarrow> string \<Rightarrow> error + nrmse_record list" where
  "process_nrmse exists read_masked resample_raster data_folder variable_name
     normalization_method =
     (let reference_path = os_path_join data_folder (reference_filename variable_name)
      in if \<not> exists reference_path then Inr []
         else process_predictions exists resample_raster data_folder variable_name
                normalization_method (read_masked reference_path)
                (prediction_filenames variable_name) [])"

subsection \<open>The error comparator as the specification words it\<close>

text \<open>The pixels valid in both arrays.\<close>

definition spec_joint_valid :: "marray \<Rightarrow> marray \<Rightarrow> nat set" where
  "spec_joint_valid reference prediction =
     {i. i < length (mdata reference)
           \<and> \<not> mask_array reference ! i \<and> \<not> mask_array prediction ! i}"

text \<open>The root of the mean of the squared differences over the joint-valid pixels.\<close>

definition spec_rmse :: "marray \<Rightarrow> marray \<Rightarrow> real" where
  "spec_rmse reference prediction =
     sqrt ((\<Sum>i \<in> spec_joint_valid reference prediction.
              (mdata reference ! i - mdata prediction ! i) ^ 2)
           / real (card (spec_joint_valid reference prediction)))"

definition spec_mean :: "marray \<Rightarrow> marray \<Rightarrow> real" where
  "spec_mean reference prediction =
     (\<Sum>i \<in> spec_joint_valid reference prediction. mdata reference ! i)
     / real (card (spec_joint_valid reference prediction))"

text \<open>
  The normalization factor over the reference values of the joint-valid pixels:
  max minus min, arithmetic mean, or population standard deviation.
\<close>

definition spec_normalization_factor :: "marray \<Rightarrow> marray \<Rightarrow> string \<Rightarrow> real" where
  "spec_normalization_factor reference prediction normalization =
     (if normalization = ''range'' then
        Max ((\<lambda>i. mdata reference ! i) ` spec_joint_valid reference prediction)
        - Min ((\<lambda>i. mdata reference ! i) ` spec_joint_valid reference prediction)
      else if normalization = ''mean'' then spec_mean reference prediction
      else sqrt ((\<Sum>i \<in> spec_joint_valid reference prediction.
                    (mdata reference ! i - spec_mean reference prediction) ^ 2)
                 / real (card (spec_joint_valid reference prediction))))"

text \<open>The joint-valid pixel indices in increasing order, for the proofs.\<close>

definition joint_idx :: "marray \<Rightarrow> marray \<Rightarrow> nat list" where
  "joint_idx r p =
     filter (\<lambda>i. \<not> mask_array r ! i \<and> \<not> mask_array p ! i) [0..<length (mdata r)]"

section \<open>Properties of the classification comparator\<close>

subsection \<open>Shapes and entries of the masks\<close>

lemma length_np_and: "length (np_and m1 m2) = min (length m1) (length m2)"
  by (simp add: np_and_def)

lemma nth_np_and:
  "i < length m1 \<Longrightarrow> i < length m2 \<Longrightarrow> np_and m1 m2 ! i = (m1 ! i \<and> m2 ! i)"
  by (simp add: np_and_def)

lemma length_masks:
  "length (valid_mask iv r p) = min (length r) (length p)"
  "length (false_negatives iv r p) = min (length r) (length p)"
  "length (false_positives iv r p) = min (length r) (length p)"
  by (simp_all add: valid_mask_def false_negatives_def false_positives_def
      length_np_and np_eq_def np_ne_def)

lemma nth_masks:
  assumes "i < length r" "i < length p"
  shows "valid_mask iv r p ! i = (r ! i = iv \<and> p ! i = iv)"
    and "false_negatives iv r p ! i = (r ! i = iv \<and> p ! i \<noteq> iv)"
    and "false_positives iv r p ! i = (r ! i \<noteq> iv \<and> p ! i = iv)"
  using assms
  by (simp_all add: valid_mask_def false_negatives_def false_positives_def
      nth_np_and np_eq_def np_ne_def)

lemma length_mask_assign:
  "length (mask_assign arr msk v) = min (length arr) (length msk)"
  by (simp add: mask_assign_def)

lemma nth_mask_assign:
  "i < length arr \<Longrightarrow> i < length msk \<Longrightarrow>
     mask_assign arr msk v ! i = (if msk ! i then v else arr ! i)"
  by (simp add: mask_assign_def)

lemma length_classification:
  "length p = length r \<Longrightarrow> length (classification iv nd r p) = length r"
  by (simp add: classification_def Let_def length_mask_assign length_masks full_like_def)

text \<open>The last write wins: the three writes are read back in reverse order.\<close>

lemma nth_classification:
  assumes "length p = length r" "i < length r"
  shows "classification iv nd r p ! i =
           (if false_positives iv r p ! i then 3
            else if false_negatives iv r p ! i then 2
            else if valid_mask iv r p ! i then 1 else nd)"
  using assms
  by (simp add: classification_def Let_def nth_mask_assign length_mask_assign
      length_masks full_like_def)

subsection \<open>Counting\<close>

lemma np_sum_Cons: "np_sum (b # m) = (if b then 1 else 0) + np_sum m"
  by (simp add: np_sum_def)

lemma np_sum_nonneg: "0 \<le> np_sum m"
  by (simp add: np_sum_def)

lemma masks_Cons:
  "valid_mask iv (x # r) (y # p) = (x = iv \<and> y = iv) # valid_mask iv r p"
  "false_negatives iv (x # r) (y # p) = (x = iv \<and> y \<noteq> iv) # false_negatives iv r p"
  "false_positives iv (x # r) (y # p) = (x \<noteq> iv \<and> y = iv) # false_positives iv r p"
  by (simp_all add: valid_mask_def false_negatives_def false_positives_def
      np_and_def np_eq_def np_ne_def)

lemma masks_Nil:
  "valid_mask iv [] [] = []" "false_negatives iv [] [] = []" "false_positives iv [] [] = []"
  by (simp_all add: valid_mask_def false_negatives_def false_positives_def
      np_and_def np_eq_def np_ne_def)

lemma total_Cons:
  "total_inundated_pixels iv (x # r) = (if x = iv then 1 else 0) + total_inundated_pixels iv r"
  by (simp add: total_inundated_pixels_def ref_mask_def np_eq_def np_sum_def)

lemma total_inundated_pixels_count:
  "total_inundated_pixels iv r = int (length (filter (\<lambda>x. x = iv) r))"
  by (simp add: total_inundated_pixels_def ref_mask_def np_eq_def np_sum_def filter_map comp_def)

lemma tp_fn_total:
  "length p = length r \<Longrightarrow>
     np_sum (valid_mask iv r p) + np_sum (false_negatives iv r p) = total_inundated_pixels iv r"
proof (induction p r rule: list_induct2)
  case Nil
  show ?case
    by (simp add: masks_Nil total_inundated_pixels_def ref_mask_def np_eq_def np_sum_def)
next
  case (Cons y p x r)
  then show ?case
    by (simp add: masks_Cons np_sum_Cons total_Cons)
qed

subsection \<open>Percentages\<close>

lemma percentage_nonneg: "0 \<le> cnt \<Longrightarrow> 0 \<le> percentage cnt tot"
  by (simp add: percentage_def)

lemma percentage_le_100:
  assumes "cnt \<le> tot"
  shows "percentage cnt tot \<le> 100"
proof (cases "tot > 0")
  case True
  then have "real_of_int cnt / real_of_int tot \<le> 1"
    using assms by (simp add: divide_le_eq)
  then have "real_of_int cnt / real_of_int tot * 100 \<le> 1 * 100"
    by (rule mult_right_mono) simp
  then show ?thesis
    using True by (simp add: percentage_def del: times_divide_eq_left)
next
  case False
  then show ?thesis by (simp add: percentage_def)
qed

subsection \<open>The claims on the classification comparator\<close>

text \<open>
  Claim C1. For a prediction array of the shape of the reference array and any
  positive value, the classification raster has the shape of the reference and
  holds at every pixel the code of the label that the priority rule gives:
  True Positive when both are positive, else False Negative when only the
  reference is, else False Positive when only the prediction is, else No-Data.
\<close>

theorem classification_follows_priority_rule:
  assumes "length resampled_coarse = length ref_array" and "i < length ref_array"
  shows "length (classification positive_value NODATA_CLASS ref_array resampled_coarse)
           = length ref_array
       \<and> classification positive_value NODATA_CLASS ref_array resampled_coarse ! i
           = label_code (spec_label positive_value (ref_array ! i) (resampled_coarse ! i))"
  using assms
  by (simp add: length_classification nth_classification nth_masks spec_label_def)

theorem classification_follows_priority_rule_witness:
  "classification 1 NODATA_CLASS [1, 1, 0, 0] [1, 0, 1, 0] ! 2 = 3"
  using classification_follows_priority_rule [of "[1, 0, 1, 0]" "[1, 1, 0, 0]" 2 1]
  by (simp add: spec_label_def)

text \<open>
  Claim C3. The true-positive count plus the false-negative count of a statistics
  row is the number of reference pixels equal to the positive value; the right-hand
  side does not mention the prediction array.
\<close>

theorem tp_plus_fn_is_reference_positive_count:
  assumes "length resampled_coarse = length ref_array"
  shows "True_Positives (stats_entry positive_value transform res ref_array resampled_coarse)
       + False_Negatives (stats_entry positive_value transform res ref_array resampled_coarse)
       = int (length (filter (\<lambda>x. x = positive_value) ref_array))"
  using tp_fn_total [OF assms, of positive_value]
  by (simp add: stats_entry_def Let_def total_inundated_pixels_count)

theorem tp_plus_fn_is_reference_positive_count_witness:
  "True_Positives (stats_entry 1 \<lparr>aff_a = 10, aff_b = 0, aff_c = 0, aff_d = 0, aff_e = - 10, aff_f = 0\<rparr> ''prediction_15m'' [1, 1, 0, 0] [1, 0, 1, 0])
   + False_Negatives (stats_entry 1 \<lparr>aff_a = 10, aff_b = 0, aff_c = 0, aff_d = 0, aff_e = - 10, aff_f = 0\<rparr> ''prediction_15m'' [1, 1, 0, 0] [1, 0, 1, 0])
   = 2"
  using tp_plus_fn_is_reference_positive_count [of "[1, 0, 1, 0]" "[1, 1, 0, 0]" 1]
  by simp

text \<open>
  Claim C4, as stated, bounds all three percentages by 100. The false-positive
  count is not bounded by the number of positive reference pixels: with one
  positive reference pixel and two false positives the FP percentage is 200.
\<close>

theorem fp_percentage_exceeds_100:
  "length [1, 1, 1 :: real] = length [1, 0, 0 :: real]
   \<and> total_inundated_pixels 1 [1, 0, 0] > 0
   \<and> FP_pct (stats_entry 1 \<lparr>aff_a = 10, aff_b = 0, aff_c = 0, aff_d = 0, aff_e = - 10, aff_f = 0\<rparr> ''prediction_15m'' [1, 0, 0] [1, 1, 1]) = 200
   \<and> \<not> (FP_pct (stats_entry 1 \<lparr>aff_a = 10, aff_b = 0, aff_c = 0, aff_d = 0, aff_e = - 10, aff_f = 0\<rparr> ''prediction_15m'' [1, 0, 0] [1, 1, 1]) \<le> 100)"
  by (simp add: stats_entry_def Let_def percentage_def total_inundated_pixels_def ref_mask_def
      np_sum_def np_eq_def np_ne_def np_and_def valid_mask_def false_negatives_def
      false_positives_def)

text \<open>
  Claim C4, amended. With \<open>total_positive\<close> the number of reference pixels equal to
  the positive value: when it is positive, each percentage is
  \<open>count / total_positive * 100\<close>, the TP and FN percentages lie in \<open>[0, 100]\<close> and
  the FP percentage is at least 0; when it is 0, all three percentages are 0.
\<close>

theorem percentages_bounds:
  assumes "length resampled_coarse = length ref_array"
  shows "(let e = stats_entry positive_value transform res ref_array resampled_coarse;
              total_positive = int (length (filter (\<lambda>x. x = positive_value) ref_array))
          in (if total_positive > 0
              then TP_pct e = real_of_int (True_Positives e) / real_of_int total_positive * 100
                 \<and> FN_pct e = real_of_int (False_Negatives e) / real_of_int total_positive * 100
                 \<and> FP_pct e = real_of_int (False_Positives e) / real_of_int total_positive * 100
                 \<and> 0 \<le> TP_pct e \<and> TP_pct e \<le> 100
                 \<and> 0 \<le> FN_pct e \<and> FN_pct e \<le> 100
                 \<and> 0 \<le> FP_pct e
              else TP_pct e = 0 \<and> FN_pct e = 0 \<and> FP_pct e = 0))"
proof -
  let ?tp = "np_sum (valid_mask positive_value ref_array resampled_coarse)"
  let ?fn = "np_sum (false_negatives positive_value ref_array resampled_coarse)"
  let ?fp = "np_sum (false_positives positive_value ref_array resampled_coarse)"
  let ?tot = "total_inundated_pixels positive_value ref_array"
  have tot: "?tot = int (length (filter (\<lambda>x. x = positive_value) ref_array))"
    by (rule total_inundated_pixels_count)
  have sum: "?tp + ?fn = ?tot"
    by (rule tp_fn_total [OF assms])
  have nn: "0 \<le> ?tp" "0 \<le> ?fn" "0 \<le> ?fp"
    by (rule np_sum_nonneg)+
  have le: "?tp \<le> ?tot" "?fn \<le> ?tot"
    using sum nn by linarith+
  have b: "percentage ?tp ?tot \<le> 100" "percentage ?fn ?tot \<le> 100"
    using le by (simp_all add: percentage_le_100)
  have p: "0 \<le> percentage ?tp ?tot" "0 \<le> percentage ?fn ?tot" "0 \<le> percentage ?fp ?tot"
    using nn by (simp_all add: percentage_nonneg)
  show ?thesis
  proof (cases "?tot > 0")
    case True
    then show ?thesis
      using b p tot by (simp add: stats_entry_def Let_def) (simp add: percentage_def)
  next
    case False
    then show ?thesis
      using tot by (simp add: stats_entry_def Let_def percentage_def)
  qed
qed

theorem percentages_bounds_witness:
  "TP_pct (stats_entry 1 \<lparr>aff_a = 10, aff_b = 0, aff_c = 0, aff_d = 0, aff_e = - 10, aff_f = 0\<rparr> ''prediction_15m'' [1, 1, 0, 0] [1, 0, 1, 0]) \<le> 100
   \<and> TP_pct (stats_entry 1 \<lparr>aff_a = 10, aff_b = 0, aff_c = 0, aff_d = 0, aff_e = - 10, aff_f = 0\<rparr> ''prediction_15m'' [0, 0] [1, 0]) = 0"
  using percentages_bounds [of "[1, 0, 1, 0]" "[1, 1, 0, 0]" 1 "\<lparr>aff_a = 10, aff_b = 0, aff_c = 0, aff_d = 0, aff_e = - 10, aff_f = 0\<rparr>" "''prediction_15m''"]
        percentages_bounds [of "[1, 0]" "[0, 0]" 1 "\<lparr>aff_a = 10, aff_b = 0, aff_c = 0, aff_d = 0, aff_e = - 10, aff_f = 0\<rparr>" "''prediction_15m''"]
  by (simp add: Let_def)

text \<open>
  Claim C9. In every row of the statistics table that \<open>main\<close> produces, each area
  is the matching pixel count times the pixel area, the absolute value of the
  product of the coefficients 0 and 4 of the reference transform.
\<close>

theorem area_is_count_times_pixel_area:
  "\<forall>e \<in> set (snd (main transform ref_array reproject)).
      TP_Area e = real_of_int (True_Positives e) * \<bar>aff_a transform * aff_e transform\<bar>
    \<and> FN_Area e = real_of_int (False_Negatives e) * \<bar>aff_a transform * aff_e transform\<bar>
    \<and> FP_Area e = real_of_int (False_Positives e) * \<bar>aff_a transform * aff_e transform\<bar>"
  by (simp add: main_def stats_entry_def Let_def pixel_area_def)

theorem area_is_count_times_pixel_area_witness:
  "TP_Area (hd (snd (main \<lparr>aff_a = 10, aff_b = 0, aff_c = 0, aff_d = 0, aff_e = - 10, aff_f = 0\<rparr> [1, 1, 0, 0] (\<lambda>p. [1, 0, 1, 0]))))
   = real_of_int (True_Positives (hd (snd (main \<lparr>aff_a = 10, aff_b = 0, aff_c = 0, aff_d = 0, aff_e = - 10, aff_f = 0\<rparr> [1, 1, 0, 0] (\<lambda>p. [1, 0, 1, 0]))))) * 100"
proof -
  let ?m = "main \<lparr>aff_a = 10, aff_b = 0, aff_c = 0, aff_d = 0, aff_e = - 10, aff_f = 0\<rparr> [1, 1, 0, 0] (\<lambda>p. [1, 0, 1, 0])"
  have "hd (snd ?m) \<in> set (snd ?m)"
    by (simp add: main_def COARSE_PATHS_def)
  with area_is_count_times_pixel_area [of "\<lparr>aff_a = 10, aff_b = 0, aff_c = 0, aff_d = 0, aff_e = - 10, aff_f = 0\<rparr>" "[1, 1, 0, 0]" "\<lambda>p. [1, 0, 1, 0]"]
  show ?thesis by simp
qed

text \<open>
  Claim C10. At every pixel the three masks are pairwise disjoint, so at most one of
  the three masked writes touches the pixel over the initial fill, and the pixel of
  the classification raster holds one of 1, 2, 3 and 255.
\<close>

theorem masks_pairwise_disjoint:
  assumes "length resampled_coarse = length ref_array" and "i < length ref_array"
  shows "\<not> (valid_mask positive_value ref_array resampled_coarse ! i
            \<and> false_negatives positive_value ref_array resampled_coarse ! i)
       \<and> \<not> (valid_mask positive_value ref_array resampled_coarse ! i
            \<and> false_positives positive_value ref_array resampled_coarse ! i)
       \<and> \<not> (false_negatives positive_value ref_array resampled_coarse ! i
            \<and> false_positives positive_value ref_array resampled_coarse ! i)
       \<and> length (filter (\<lambda>b. b)
            [valid_mask positive_value ref_array resampled_coarse ! i,
             false_negatives positive_value ref_array resampled_coarse ! i,
             false_positives positive_value ref_array resampled_coarse ! i]) \<le> 1
       \<and> classification positive_value NODATA_CLASS ref_array resampled_coarse ! i
           \<in> {1, 2, 3, 255}"
  using assms
  by (simp add: nth_masks nth_classification NODATA_CLASS_def)

theorem masks_pairwise_disjoint_witness:
  "\<not> (valid_mask 1 [1, 1, 0, 0] [1, 0, 1, 0] ! 0 \<and> false_negatives 1 [1, 1, 0, 0] [1, 0, 1, 0] ! 0)
   \<and> classification 1 NODATA_CLASS [1, 1, 0, 0] [1, 0, 1, 0] ! 0 \<in> {1, 2, 3, 255}"
  using masks_pairwise_disjoint [of "[1, 0, 1, 0]" "[1, 1, 0, 0]" 0 1]
  by simp

section \<open>Properties of the error comparator\<close>

subsection \<open>Boolean indexing and the joint-valid pixels\<close>

lemma getitem_simps:
  "getitem [] m = []" "getitem xs [] = []"
  "getitem (x # xs) (b # m) = (if b then x # getitem xs m else getitem xs m)"
  by (simp_all add: getitem_def)

lemma getitem_index:
  "length xs = length m \<Longrightarrow> getitem xs m = map ((!) xs) (filter ((!) m) [0..<length xs])"
proof (induction xs m rule: list_induct2)
  case Nil
  show ?case by (simp add: getitem_simps)
next
  case (Cons x xs b m)
  have "[0..<length (x # xs)] = 0 # map Suc [0..<length xs]"
    by (simp add: upt_conv_Cons map_Suc_upt del: upt_Suc)
  then show ?case
    using Cons.IH by (simp add: getitem_simps filter_map comp_def del: upt_Suc)
qed

lemma set_joint_idx: "set (joint_idx r p) = spec_joint_valid r p"
  by (auto simp: joint_idx_def spec_joint_valid_def)

lemma distinct_joint_idx: "distinct (joint_idx r p)"
  by (simp add: joint_idx_def)

lemma length_joint_idx: "length (joint_idx r p) = card (spec_joint_valid r p)"
  using distinct_card [OF distinct_joint_idx, of r p] by (simp add: set_joint_idx)

lemma joint_idx_Nil: "joint_idx r p = [] \<longleftrightarrow> spec_joint_valid r p = {}"
  using set_joint_idx [of r p] by (metis set_empty)

lemma sum_joint_idx: "sum_list (map f (joint_idx r p)) = sum f (spec_joint_valid r p)"
  using sum_list_distinct_conv_sum_set [OF distinct_joint_idx, of f r p]
  by (simp add: set_joint_idx)

lemma length_mask_array: "wf_marray a \<Longrightarrow> length (mask_array a) = length (mdata a)"
  by (simp add: wf_marray_def)

lemma length_joint_mask:
  "same_shape r p \<Longrightarrow> length (joint_mask r p) = length (mdata r)"
  by (simp add: joint_mask_def same_shape_def wf_marray_def)

lemma filter_joint_mask:
  assumes "same_shape r p"
  shows "filter ((!) (joint_mask r p)) [0..<length (mdata r)] = joint_idx r p"
  unfolding joint_idx_def
proof (rule filter_cong [OF refl])
  fix i assume "i \<in> set [0..<length (mdata r)]"
  then show "joint_mask r p ! i = (\<not> mask_array r ! i \<and> \<not> mask_array p ! i)"
    using assms by (simp add: joint_mask_def same_shape_def wf_marray_def)
qed

lemma getitem_joint:
  assumes "same_shape r p" "length xs = length (mdata r)"
  shows "getitem xs (joint_mask r p) = map ((!) xs) (joint_idx r p)"
  using getitem_index [of xs "joint_mask r p"] assms
  by (simp add: length_joint_mask filter_joint_mask)

lemma ref_values_data:
  "same_shape r p \<Longrightarrow> mdata (ref_values r p) = map ((!) (mdata r)) (joint_idx r p)"
  by (simp add: ref_values_def ma_getitem_def getitem_joint)

lemma pred_values_data:
  "same_shape r p \<Longrightarrow> mdata (pred_values r p) = map ((!) (mdata p)) (joint_idx r p)"
  by (simp add: pred_values_def ma_getitem_def getitem_joint same_shape_def)

lemma all_False_replicate:
  "(\<forall>b \<in> set m. \<not> b) \<Longrightarrow> m = replicate (length m) False"
  by (induction m) auto

text \<open>The selected samples are all valid: their mask is \<^verbatim>\<open>nomask\<close> or all \<^verbatim>\<open>False\<close>.\<close>

lemma ref_values_mask:
  assumes "same_shape r p"
  shows "mmask (ref_values r p) =
           (case mmask r of None \<Rightarrow> None
            | Some m \<Rightarrow> Some (replicate (length (joint_idx r p)) False))"
proof (cases "mmask r")
  case None
  then show ?thesis by (simp add: ref_values_def ma_getitem_def)
next
  case (Some m)
  then have ma: "mask_array r = m" by (simp add: mask_array_def)
  have "length m = length (mdata r)"
    using assms ma by (simp add: same_shape_def wf_marray_def)
  then have g: "getitem m (joint_mask r p) = map ((!) m) (joint_idx r p)"
    using assms by (rule getitem_joint [rotated])
  have "\<forall>b \<in> set (map ((!) m) (joint_idx r p)). \<not> b"
    using ma by (auto simp: joint_idx_def)
  then have "map ((!) m) (joint_idx r p) = replicate (length (joint_idx r p)) False"
    using all_False_replicate [of "map ((!) m) (joint_idx r p)"] by simp
  then show ?thesis
    using Some g by (simp add: ref_values_def ma_getitem_def)
qed

lemma pred_values_mask:
  assumes "same_shape r p"
  shows "mmask (pred_values r p) =
           (case mmask p of None \<Rightarrow> None
            | Some m \<Rightarrow> Some (replicate (length (joint_idx r p)) False))"
proof (cases "mmask p")
  case None
  then show ?thesis by (simp add: pred_values_def ma_getitem_def)
next
  case (Some m)
  then have ma: "mask_array p = m" by (simp add: mask_array_def)
  have "length m = length (mdata r)"
    using assms ma by (simp add: same_shape_def wf_marray_def)
  then have g: "getitem m (joint_mask r p) = map ((!) m) (joint_idx r p)"
    using assms by (rule getitem_joint [rotated])
  have "\<forall>b \<in> set (map ((!) m) (joint_idx r p)). \<not> b"
    using ma by (auto simp: joint_idx_def)
  then have "map ((!) m) (joint_idx r p) = replicate (length (joint_idx r p)) False"
    using all_False_replicate [of "map ((!) m) (joint_idx r p)"] by simp
  then show ?thesis
    using Some g by (simp add: pred_values_def ma_getitem_def)
qed

lemma mask_array_ref_values:
  "same_shape r p \<Longrightarrow> mask_array (ref_values r p) = replicate (length (joint_idx r p)) False"
  by (simp add: mask_array_def ref_values_mask ref_values_data split: option.splits)

lemma mask_array_pred_values:
  "same_shape r p \<Longrightarrow> mask_array (pred_values r p) = replicate (length (joint_idx r p)) False"
  by (simp add: mask_array_def pred_values_mask pred_values_data split: option.splits)

lemma getitem_all_True: "length xs = n \<Longrightarrow> getitem xs (replicate n True) = xs"
  by (induction xs arbitrary: n) (auto simp: getitem_simps)

lemma compressed_unmasked:
  "mask_array a = replicate (length (mdata a)) False \<Longrightarrow> compressed a = mdata a"
  by (simp add: compressed_def getitem_all_True)

lemma compressed_ref_values:
  "same_shape r p \<Longrightarrow> compressed (ref_values r p) = map ((!) (mdata r)) (joint_idx r p)"
  using compressed_unmasked [of "ref_values r p"]
  by (simp add: ref_values_data mask_array_ref_values)

lemma map2_replicate_False:
  "map2 (\<lambda>p q. p \<or> q) (replicate n False) (replicate n False) = replicate n False"
  by (induction n) auto

text \<open>The squared difference of the two selections carries \<^verbatim>\<open>nomask\<close>.\<close>

lemma sqdiff_data:
  assumes "same_shape r p"
  shows "mdata (ma_square (ma_sub (ref_values r p) (pred_values r p)))
           = map (\<lambda>i. (mdata r ! i - mdata p ! i) ^ 2) (joint_idx r p)"
  using assms
  by (simp add: ma_square_def ma_sub_def ref_values_data pred_values_data zip_map_map comp_def
      zip_same_conv_map)

lemma sqdiff_mask:
  assumes "same_shape r p"
  shows "mmask (ma_square (ma_sub (ref_values r p) (pred_values r p))) = None"
  using assms
  by (simp add: ma_square_def ma_sub_def shrink_mask_def mask_array_ref_values
      mask_array_pred_values map2_replicate_False)

lemma rmse_eq:
  assumes "same_shape r p"
  shows "rmse r p = (if spec_joint_valid r p = {} then NaN else Finite (spec_rmse r p))"
proof (cases "spec_joint_valid r p = {}")
  case True
  then show ?thesis
    using assms by (simp add: rmse_def ma_mean_def sqdiff_data sqdiff_mask joint_idx_Nil)
next
  case False
  have "0 \<le> (\<Sum>i \<in> spec_joint_valid r p. (mdata r ! i - mdata p ! i) ^ 2)
             / real (card (spec_joint_valid r p))"
    by (simp add: sum_nonneg)
  then show ?thesis
    using assms False
    by (simp add: rmse_def ma_mean_def sqdiff_data sqdiff_mask joint_idx_Nil
        sum_joint_idx length_joint_idx spec_rmse_def)
qed

subsection \<open>The normalization factor\<close>

lemma mdata_ref_values_Nil:
  "same_shape r p \<Longrightarrow> mdata (ref_values r p) = [] \<longleftrightarrow> spec_joint_valid r p = {}"
  by (simp add: ref_values_data joint_idx_Nil)

lemma ma_mean_ref_values:
  assumes "same_shape r p"
  shows "ma_mean (ref_values r p) =
           (if spec_joint_valid r p = {} then (if mmask r = None then NaN else Masked)
            else Finite (spec_mean r p))"
  using assms
  by (simp add: ma_mean_def compressed_ref_values ref_values_data ref_values_mask joint_idx_Nil
      Let_def comp_def sum_joint_idx length_joint_idx spec_mean_def split: option.splits)

lemma variance_ref_values:
  "variance (map ((!) (mdata r)) (joint_idx r p))
     = (\<Sum>i \<in> spec_joint_valid r p. (mdata r ! i - spec_mean r p) ^ 2)
       / real (card (spec_joint_valid r p))"
  by (simp add: variance_def Let_def comp_def sum_joint_idx length_joint_idx spec_mean_def)

lemma ma_var_ref_values:
  assumes "same_shape r p"
  shows "ma_var (ref_values r p) =
           (if spec_joint_valid r p = {} then (if mmask r = None then NaN else Masked)
            else Finite ((\<Sum>i \<in> spec_joint_valid r p. (mdata r ! i - spec_mean r p) ^ 2)
                         / real (card (spec_joint_valid r p))))"
  using assms
  by (simp add: ma_var_def compressed_ref_values ref_values_data ref_values_mask joint_idx_Nil
      Let_def variance_ref_values split: option.splits)

lemma ma_std_ref_values:
  assumes "same_shape r p"
  shows "ma_std (ref_values r p) =
           (if spec_joint_valid r p = {} then Masked
            else Finite (sqrt ((\<Sum>i \<in> spec_joint_valid r p. (mdata r ! i - spec_mean r p) ^ 2)
                               / real (card (spec_joint_valid r p)))))"
proof -
  have "0 \<le> (\<Sum>i \<in> spec_joint_valid r p. (mdata r ! i - spec_mean r p) ^ 2)
             / real (card (spec_joint_valid r p))"
    by (simp add: sum_nonneg)
  then show ?thesis
    by (simp add: ma_std_def ma_var_ref_values [OF assms] Let_def)
qed

lemma ma_max_ref_values:
  assumes "same_shape r p" "spec_joint_valid r p \<noteq> {}"
  shows "ma_max (ref_values r p) = Inr (Finite (Max ((\<lambda>i. mdata r ! i) ` spec_joint_valid r p)))"
  using assms
  by (simp add: ma_max_def mdata_ref_values_Nil compressed_ref_values joint_idx_Nil Let_def
      set_joint_idx)

lemma ma_min_ref_values:
  assumes "same_shape r p" "spec_joint_valid r p \<noteq> {}"
  shows "ma_min (ref_values r p) = Inr (Finite (Min ((\<lambda>i. mdata r ! i) ` spec_joint_valid r p)))"
  using assms
  by (simp add: ma_min_def mdata_ref_values_Nil compressed_ref_values joint_idx_Nil Let_def
      set_joint_idx)

lemma norm_factor_nonempty:
  assumes "same_shape r p" "spec_joint_valid r p \<noteq> {}"
    and "n \<in> {''range'', ''mean'', ''std''}"
  shows "norm_factor (ref_values r p) n = Inr (Finite (spec_normalization_factor r p n))"
  using assms
  by (auto simp: norm_factor_def ma_max_ref_values ma_min_ref_values ma_mean_ref_values
      ma_std_ref_values spec_normalization_factor_def)

lemma norm_factor_empty:
  assumes "same_shape r p" "spec_joint_valid r p = {}"
  shows "norm_factor (ref_values r p) n =
           (if n = ''range''
            then Inl (ValueError ''zero-size array to reduction operation maximum which has no identity'')
            else if n = ''mean'' then Inr (if mmask r = None then NaN else Masked)
            else if n = ''std'' then Inr Masked
            else Inl (ValueError invalid_normalization))"
  using assms
  by (simp add: norm_factor_def ma_max_def mdata_ref_values_Nil ma_mean_ref_values
      ma_std_ref_values)

lemma norm_factor_invalid:
  "n \<notin> {''range'', ''mean'', ''std''} \<Longrightarrow> norm_factor rv n = Inl (ValueError invalid_normalization)"
  by (simp add: norm_factor_def)

lemma spec_rmse_nonneg: "0 \<le> spec_rmse r p"
  by (simp add: spec_rmse_def sum_nonneg)

lemma spec_rmse_identical:
  "\<forall>i \<in> spec_joint_valid r p. mdata r ! i = mdata p ! i \<Longrightarrow> spec_rmse r p = 0"
  by (simp add: spec_rmse_def)

lemma finite_joint_valid: "finite (spec_joint_valid r p)"
  by (simp add: spec_joint_valid_def)

lemma spec_normalization_factor_nonneg:
  assumes "spec_joint_valid r p \<noteq> {}" "n \<noteq> ''mean''"
  shows "0 \<le> spec_normalization_factor r p n"
proof (cases "n = ''range''")
  case True
  have "Min ((\<lambda>i. mdata r ! i) ` spec_joint_valid r p) \<le> Max ((\<lambda>i. mdata r ! i) ` spec_joint_valid r p)"
  proof -
    obtain i where i: "i \<in> spec_joint_valid r p" using assms(1) by blast
    let ?S = "(\<lambda>i. mdata r ! i) ` spec_joint_valid r p"
    have f: "finite ?S" using finite_joint_valid [of r p] by simp
    have "Min ?S \<le> mdata r ! i" using f i by (intro Min_le) simp_all
    moreover have "mdata r ! i \<le> Max ?S" using f i by (intro Max_ge) simp_all
    ultimately show ?thesis by linarith
  qed
  then show ?thesis using True by (simp add: spec_normalization_factor_def)
next
  case False
  then show ?thesis using assms(2)
    by (simp add: spec_normalization_factor_def sum_nonneg)
qed

subsection \<open>The loop over the prediction files\<close>

lemma process_predictions_invalid:
  assumes "n \<notin> {''range'', ''mean'', ''std''}"
  shows "process_predictions ex rs df vn n ref_data files acc
           \<in> {Inl (ValueError invalid_normalization), Inr acc}"
proof (induction files)
  case Nil
  show ?case by simp
next
  case (Cons f files)
  have "compute_nrmse ref_data (rs (os_path_join df f) ref_data) n
          = Inl (ValueError invalid_normalization)"
    using assms by (simp add: compute_nrmse_def norm_factor_invalid)
  then show ?case using Cons.IH by (simp add: Let_def)
qed

lemma process_predictions_invalid_raises:
  assumes "n \<notin> {''range'', ''mean'', ''std''}"
    and "\<exists>f \<in> set files. ex (os_path_join df f)"
  shows "process_predictions ex rs df vn n ref_data files acc
           = Inl (ValueError invalid_normalization)"
  using assms(2)
proof (induction files)
  case Nil
  then show ?case by simp
next
  case (Cons f files)
  have c: "compute_nrmse ref_data (rs (os_path_join df f) ref_data) n
          = Inl (ValueError invalid_normalization)"
    using assms(1) by (simp add: compute_nrmse_def norm_factor_invalid)
  show ?case
  proof (cases "ex (os_path_join df f)")
    case True
    then show ?thesis using c by (simp add: Let_def)
  next
    case False
    then have "\<exists>f \<in> set files. ex (os_path_join df f)" using Cons.prems by auto
    then show ?thesis using Cons.IH False by (simp add: Let_def)
  qed
qed

subsection \<open>Evaluation on concrete arrays\<close>

lemmas nrmse_eval = compute_nrmse_def norm_factor_def ref_values_def pred_values_def rmse_def
  ma_getitem_def getitem_def joint_mask_def ma_mean_def ma_max_def ma_min_def ma_std_def
  ma_var_def variance_def compressed_def ma_sub_def ma_square_def shrink_mask_def
  mask_array_def Let_def

lemma joint_valid_pair:
  "spec_joint_valid \<lparr>mdata = [a, b], mmask = Some [False, False]\<rparr>
                    \<lparr>mdata = [c, d], mmask = Some [False, False]\<rparr> = {0, 1}"
  by (auto simp: spec_joint_valid_def mask_array_def nth_Cons')

lemma same_shape_pair:
  "same_shape \<lparr>mdata = [a, b], mmask = Some [m1, m2]\<rparr> \<lparr>mdata = [c, d], mmask = Some [m3, m4]\<rparr>"
  by (simp add: same_shape_def wf_marray_def mask_array_def)

subsection \<open>The claims on the error comparator\<close>

text \<open>
  Claim C2. For two masked arrays of one shape with at least one jointly valid
  pixel and a method among range, mean and std, \<open>compute_nrmse\<close> returns the RMSE
  over the joint-valid pixels divided by the normalization factor over the
  reference values of the same pixels, times 100, in numpy's scalar arithmetic.
  With a non-zero factor this is the finite number \<open>RMSE / factor * 100\<close>; with
  a zero factor it is the infinity or NaN of the float division.
\<close>

theorem compute_nrmse_refines_spec:
  assumes "same_shape reference prediction"
    and "spec_joint_valid reference prediction \<noteq> {}"
    and "normalization \<in> {''range'', ''mean'', ''std''}"
  shows "compute_nrmse reference prediction normalization
           = Inr (np_mul (np_div (Finite (spec_rmse reference prediction))
                    (Finite (spec_normalization_factor reference prediction normalization))) 100)
       \<and> (if spec_normalization_factor reference prediction normalization \<noteq> 0
          then compute_nrmse reference prediction normalization
                 = Inr (Finite (spec_rmse reference prediction
                        / spec_normalization_factor reference prediction normalization * 100))
          else compute_nrmse reference prediction normalization \<in> {Inr PosInf, Inr NaN})"
  using assms(2) spec_rmse_nonneg [of reference prediction]
  by (simp add: compute_nrmse_def norm_factor_nonempty [OF assms] rmse_eq [OF assms(1)])

theorem compute_nrmse_refines_spec_witness:
  "compute_nrmse \<lparr>mdata = [0, 4], mmask = Some [False, False]\<rparr>
                 \<lparr>mdata = [2, 2], mmask = Some [False, False]\<rparr> ''range'' = Inr (Finite 50)"
proof -
  let ?A = "\<lparr>mdata = [0, 4], mmask = Some [False, False]\<rparr>"
  let ?B = "\<lparr>mdata = [2, 2], mmask = Some [False, False]\<rparr>"
  have j: "spec_joint_valid ?A ?B = {0, 1}" by (rule joint_valid_pair)
  have ne: "spec_joint_valid ?A ?B \<noteq> {}" by (simp add: j)
  have r: "spec_rmse ?A ?B = 2" by (simp add: spec_rmse_def j)
  have n: "spec_normalization_factor ?A ?B ''range'' = 4"
    by (simp add: spec_normalization_factor_def j)
  show ?thesis
    using compute_nrmse_refines_spec [OF same_shape_pair ne, of "''range''"] by (simp add: r n)
qed

text \<open>
  Claim C5, as stated, fails twice. Under the mean normalization a reference
  field with a negative mean gives a negative result, and on identical arrays
  whose normalization factor is 0 the result is NaN, not 0.
\<close>

theorem compute_nrmse_negative_and_nan:
  "compute_nrmse \<lparr>mdata = [- 1, - 1], mmask = Some [False, False]\<rparr>
                 \<lparr>mdata = [0, 0], mmask = Some [False, False]\<rparr> ''mean'' = Inr (Finite (- 100))
   \<and> compute_nrmse \<lparr>mdata = [5, 5], mmask = Some [False, False]\<rparr>
                   \<lparr>mdata = [5, 5], mmask = Some [False, False]\<rparr> ''range'' = Inr NaN"
  by (simp add: nrmse_eval)

text \<open>
  Claim C5, amended. With a non-empty joint-valid mask and a method among range,
  mean and std the normalization factor is a finite number, never negative under
  range and std. When the factor is positive the result is a finite non-negative
  number, and when it is non-zero and the two arrays agree on the joint-valid
  pixels the result is exactly 0.
\<close>

theorem compute_nrmse_sign:
  assumes "same_shape reference prediction"
    and "spec_joint_valid reference prediction \<noteq> {}"
    and "normalization \<in> {''range'', ''mean'', ''std''}"
  shows "\<exists>nf. norm_factor (ref_values reference prediction) normalization = Inr (Finite nf)
           \<and> (normalization \<noteq> ''mean'' \<longrightarrow> 0 \<le> nf)
           \<and> (0 < nf \<longrightarrow> (\<exists>v. compute_nrmse reference prediction normalization = Inr (Finite v)
                                  \<and> 0 \<le> v))
           \<and> (nf \<noteq> 0 \<and> (\<forall>i \<in> spec_joint_valid reference prediction.
                              mdata reference ! i = mdata prediction ! i)
                \<longrightarrow> compute_nrmse reference prediction normalization = Inr (Finite 0))"
proof -
  let ?nf = "spec_normalization_factor reference prediction normalization"
  have n: "norm_factor (ref_values reference prediction) normalization = Inr (Finite ?nf)"
    by (rule norm_factor_nonempty [OF assms])
  have r: "rmse reference prediction = Finite (spec_rmse reference prediction)"
    using assms(2) by (simp add: rmse_eq [OF assms(1)])
  have 1: "normalization \<noteq> ''mean'' \<longrightarrow> 0 \<le> ?nf"
    using spec_normalization_factor_nonneg [OF assms(2)] by simp
  have 2: "0 < ?nf \<longrightarrow> (\<exists>v. compute_nrmse reference prediction normalization = Inr (Finite v)
                                  \<and> 0 \<le> v)"
    using spec_rmse_nonneg [of reference prediction]
    by (simp add: compute_nrmse_def n r)
  have 3: "?nf \<noteq> 0 \<and> (\<forall>i \<in> spec_joint_valid reference prediction.
                              mdata reference ! i = mdata prediction ! i)
                \<longrightarrow> compute_nrmse reference prediction normalization = Inr (Finite 0)"
    using spec_rmse_identical [of reference prediction]
    by (simp add: compute_nrmse_def n r)
  show ?thesis using n 1 2 3 by blast
qed

theorem compute_nrmse_sign_witness:
  "compute_nrmse \<lparr>mdata = [0, 4], mmask = Some [False, False]\<rparr>
                 \<lparr>mdata = [0, 4], mmask = Some [False, False]\<rparr> ''range'' = Inr (Finite 0)"
proof -
  let ?A = "\<lparr>mdata = [0, 4], mmask = Some [False, False]\<rparr>"
  have j: "spec_joint_valid ?A ?A = {0, 1}" by (rule joint_valid_pair)
  have ne: "spec_joint_valid ?A ?A \<noteq> {}" by (simp add: j)
  have n: "norm_factor (ref_values ?A ?A) ''range'' = Inr (Finite 4)"
    by (simp add: nrmse_eval)
  have i: "\<forall>i \<in> spec_joint_valid ?A ?A. mdata ?A ! i = mdata ?A ! i" by simp
  from compute_nrmse_sign [OF same_shape_pair ne, of "''range''"] n i show ?thesis by auto
qed

text \<open>
  Claim C6, as stated, fails: no emptiness check exists. A reference without a
  mask array (a raster without nodata) against a prediction that is masked
  everywhere has no jointly valid pixel, and under the mean normalization the
  function returns \<^verbatim>\<open>nan\<close> instead of failing.
\<close>

theorem compute_nrmse_empty_returns_nan:
  "joint_mask \<lparr>mdata = [0, 4], mmask = None\<rparr>
              \<lparr>mdata = [0, 0], mmask = Some [True, True]\<rparr> = [False, False]
   \<and> compute_nrmse \<lparr>mdata = [0, 4], mmask = None\<rparr>
                   \<lparr>mdata = [0, 0], mmask = Some [True, True]\<rparr> ''mean'' = Inr NaN"
  by (simp add: nrmse_eval)

text \<open>
  Claim C6, amended. With an empty joint-valid subset \<open>compute_nrmse\<close> fails only
  where numpy does: under range the \<^verbatim>\<open>max()\<close> of the empty selection raises
  numpy's \<^verbatim>\<open>ValueError\<close> for a zero-size reduction. Under mean and std the call
  raises nothing and returns a value that is not a number, \<^verbatim>\<open>nan\<close> or the constant
  \<^verbatim>\<open>masked\<close>; under mean with a reference that has no mask array it is \<^verbatim>\<open>nan\<close>.
  Any other method raises the invalid-method error.
\<close>

theorem compute_nrmse_empty_joint_mask:
  assumes "same_shape reference prediction"
    and "spec_joint_valid reference prediction = {}"
  shows "(normalization = ''range'' \<longrightarrow>
            compute_nrmse reference prediction normalization
              = Inl (ValueError
                  ''zero-size array to reduction operation maximum which has no identity''))
       \<and> (normalization \<in> {''mean'', ''std''} \<longrightarrow>
            compute_nrmse reference prediction normalization \<in> {Inr NaN, Inr Masked})
       \<and> (normalization = ''mean'' \<and> mmask reference = None \<longrightarrow>
            compute_nrmse reference prediction normalization = Inr NaN)
       \<and> (normalization \<notin> {''range'', ''mean'', ''std''} \<longrightarrow>
            compute_nrmse reference prediction normalization
              = Inl (ValueError invalid_normalization))"
  by (simp add: compute_nrmse_def norm_factor_empty [OF assms] rmse_eq [OF assms(1)] assms(2))

theorem compute_nrmse_empty_joint_mask_witness:
  "compute_nrmse \<lparr>mdata = [1, 2], mmask = Some [True, False]\<rparr>
                 \<lparr>mdata = [1, 2], mmask = Some [False, True]\<rparr> ''range''
     = Inl (ValueError ''zero-size array to reduction operation maximum which has no identity'')
   \<and> compute_nrmse \<lparr>mdata = [0, 4], mmask = None\<rparr>
                   \<lparr>mdata = [4, 0], mmask = Some [True, True]\<rparr> ''std''
       \<in> {Inr NaN, Inr Masked}"
proof -
  have 1: "spec_joint_valid \<lparr>mdata = [1, 2], mmask = Some [True, False]\<rparr>
                            \<lparr>mdata = [1, 2], mmask = Some [False, True]\<rparr> = {}"
    by (auto simp: spec_joint_valid_def mask_array_def nth_Cons' split: if_splits)
  have 2: "spec_joint_valid \<lparr>mdata = [0, 4], mmask = None\<rparr>
                            \<lparr>mdata = [4, 0], mmask = Some [True, True]\<rparr> = {}"
    by (auto simp: spec_joint_valid_def mask_array_def nth_Cons' split: if_splits)
  have s: "same_shape \<lparr>mdata = [0, 4], mmask = None\<rparr>
                      \<lparr>mdata = [4, 0], mmask = Some [True, True]\<rparr>"
    by (simp add: same_shape_def wf_marray_def mask_array_def)
  from compute_nrmse_empty_joint_mask [OF same_shape_pair 1, of "''range''"]
       compute_nrmse_empty_joint_mask [OF s 2, of "''std''"]
  show ?thesis by simp
qed

text \<open>
  Claim C7, as stated, fails: the division is not guarded. A constant reference
  field under the range normalization has factor 0, and the function returns
  positive infinity.
\<close>

theorem compute_nrmse_zero_factor_returns_inf:
  "norm_factor (ref_values \<lparr>mdata = [5, 5], mmask = Some [False, False]\<rparr>
                           \<lparr>mdata = [6, 6], mmask = Some [False, False]\<rparr>) ''range'' = Inr (Finite 0)
   \<and> compute_nrmse \<lparr>mdata = [5, 5], mmask = Some [False, False]\<rparr>
                   \<lparr>mdata = [6, 6], mmask = Some [False, False]\<rparr> ''range'' = Inr PosInf"
  by (simp add: nrmse_eval)

text \<open>
  Claim C7, amended. When the normalization factor is exactly 0 (and some pixel is
  jointly valid) \<open>compute_nrmse\<close> raises no error: it returns NaN when the RMSE is
  0 and positive infinity otherwise.
\<close>

theorem compute_nrmse_zero_factor:
  assumes "same_shape reference prediction"
    and "spec_joint_valid reference prediction \<noteq> {}"
    and "norm_factor (ref_values reference prediction) normalization = Inr (Finite 0)"
  shows "\<exists>e. rmse reference prediction = Finite e \<and> 0 \<le> e
           \<and> compute_nrmse reference prediction normalization
               = Inr (if e = 0 then NaN else PosInf)"
  using assms(2,3) spec_rmse_nonneg [of reference prediction]
  by (simp add: compute_nrmse_def rmse_eq [OF assms(1)])

theorem compute_nrmse_zero_factor_witness:
  "compute_nrmse \<lparr>mdata = [5, 5], mmask = Some [False, False]\<rparr>
                 \<lparr>mdata = [5, 5], mmask = Some [False, False]\<rparr> ''std'' = Inr NaN"
proof -
  let ?A = "\<lparr>mdata = [5, 5], mmask = Some [False, False]\<rparr>"
  have j: "spec_joint_valid ?A ?A = {0, 1}" by (rule joint_valid_pair)
  have ne: "spec_joint_valid ?A ?A \<noteq> {}" by (simp add: j)
  have n: "norm_factor (ref_values ?A ?A) ''std'' = Inr (Finite 0)"
    by (simp add: nrmse_eval)
  have r: "rmse ?A ?A = Finite 0" by (simp add: nrmse_eval)
  from compute_nrmse_zero_factor [OF same_shape_pair ne n] r show ?thesis by auto
qed

text \<open>
  Claim C8. For a method string other than range, mean and std \<open>compute_nrmse\<close>
  raises the invalid-method \<^verbatim>\<open>ValueError\<close>. \<open>process_nrmse\<close> then returns no
  record: it either raises that error, which it does as soon as the reference
  file and one prediction file exist, or returns the empty list.
\<close>

theorem invalid_normalization_raises:
  assumes "normalization \<notin> {''range'', ''mean'', ''std''}"
    and "same_shape reference prediction"
    and "\<forall>path. same_shape
            (read_masked (os_path_join data_folder (reference_filename variable_name)))
            (resample_raster path
               (read_masked (os_path_join data_folder (reference_filename variable_name))))"
  shows "compute_nrmse reference prediction normalization
           = Inl (ValueError invalid_normalization)
       \<and> (case process_nrmse exists read_masked resample_raster data_folder variable_name
                 normalization of
            Inl e \<Rightarrow> e = ValueError invalid_normalization
          | Inr results \<Rightarrow> results = [])
       \<and> (exists (os_path_join data_folder (reference_filename variable_name))
            \<and> (\<exists>f \<in> set (prediction_filenames variable_name). exists (os_path_join data_folder f))
          \<longrightarrow> process_nrmse exists read_masked resample_raster data_folder variable_name
                 normalization = Inl (ValueError invalid_normalization))"
proof (intro conjI impI)
  show "compute_nrmse reference prediction normalization = Inl (ValueError invalid_normalization)"
    using assms(1) by (simp add: compute_nrmse_def norm_factor_invalid)
next
  let ?rp = "os_path_join data_folder (reference_filename variable_name)"
  have "process_predictions exists resample_raster data_folder variable_name normalization
          (read_masked ?rp) (prediction_filenames variable_name) []
        \<in> {Inl (ValueError invalid_normalization), Inr []}"
    by (rule process_predictions_invalid [OF assms(1)])
  then show "case process_nrmse exists read_masked resample_raster data_folder variable_name
                 normalization of
            Inl e \<Rightarrow> e = ValueError invalid_normalization
          | Inr results \<Rightarrow> results = []"
    by (auto simp: process_nrmse_def Let_def)
next
  assume a: "exists (os_path_join data_folder (reference_filename variable_name))
            \<and> (\<exists>f \<in> set (prediction_filenames variable_name). exists (os_path_join data_folder f))"
  then show "process_nrmse exists read_masked resample_raster data_folder variable_name
                 normalization = Inl (ValueError invalid_normalization)"
    using process_predictions_invalid_raises [OF assms(1), of "prediction_filenames variable_name"
        exists data_folder resample_raster variable_name]
    by (simp add: process_nrmse_def Let_def)
qed

theorem invalid_normalization_raises_witness:
  "compute_nrmse \<lparr>mdata = [0, 4], mmask = Some [False, False]\<rparr>
                 \<lparr>mdata = [2, 2], mmask = Some [False, False]\<rparr> ''invalid''
     = Inl (ValueError invalid_normalization)
   \<and> process_nrmse (\<lambda>path. True) (\<lambda>path. \<lparr>mdata = [0, 4], mmask = Some [False, False]\<rparr>)
        (\<lambda>path r. \<lparr>mdata = [2, 2], mmask = Some [False, False]\<rparr>) ''NRMSE/depth'' ''depth'' ''invalid''
     = Inl (ValueError invalid_normalization)"
proof -
  have 1: "''invalid'' \<notin> {''range'', ''mean'', ''std''}" by simp
  have 3: "\<forall>path. same_shape
            ((\<lambda>path. \<lparr>mdata = [0, 4], mmask = Some [False, False]\<rparr>)
               (os_path_join ''NRMSE/depth'' (reference_filename ''depth'')))
            ((\<lambda>path r. \<lparr>mdata = [2, 2], mmask = Some [False, False]\<rparr>) path
               ((\<lambda>path. \<lparr>mdata = [0, 4], mmask = Some [False, False]\<rparr>)
                  (os_path_join ''NRMSE/depth'' (reference_filename ''depth''))))"
    by (simp add: same_shape_pair)
  have 4: "\<exists>f \<in> set (prediction_filenames ''depth''). True"
    by (auto simp: prediction_filenames_def)
  from invalid_normalization_raises [where exists = "\<lambda>path. True", OF 1 same_shape_pair 3] 4 show ?thesis by simp
qed

end
